theory Spec2Isabelle
  imports Main
begin

section \<open>The discv5 peer-discovery adapter (src/libp2p/discv5.ts)\<close>

text \<open>
  The class \<open>Discv5Discovery\<close> wraps a discovery engine (\<open>Discv5\<close>) and republishes
  the records it finds as \<open>"peer"\<close> events. The engine, the record class \<open>ENR\<close>, the
  address class \<open>Multiaddr\<close> and the event emitter live outside the file; the model
  keeps of them what the file observes:
  \<^item> of a record, the getters \<open>udp\<close> and \<open>udp6\<close>, the method
    \<open>getLocationMultiaddr\<close> and the promise returned by \<open>peerId()\<close>;
  \<^item> of the engine, the sequence of calls made on it, in order;
  \<^item> of the emitter, the sequence of events emitted on the \<open>"peer"\<close> channel;
  \<^item> of \<open>setTimeout\<close>, the sequence of timers requested.
  A \<open>throw\<close> and a rejected promise are the value \<open>Threw\<close>. An \<open>async\<close> function is
  split at its \<open>await\<close>s: the call runs up to the first \<open>await\<close> and yields a task, and
  a resume step runs a pending task from its \<open>await\<close> to the next one, on the state as it
  is by then.
\<close>

subsection \<open>Data\<close>

type_synonym multiaddr = string
type_synonym peer_id = string

text \<open>A JavaScript \<open>Error\<close> with its message.\<close>

datatype error = Error string

datatype outcome = Returned | Threw error

text \<open>An \<open>async\<close> call: settled, or pending at an \<open>await\<close> with what it holds there.\<close>

datatype 'a task = Settled outcome | Pending 'a

text \<open>
  A \<open>number\<close>, as far as the file uses one (whole milliseconds, ports); \<open>NaN\<close> is
  kept because it is falsy.
\<close>

datatype number = NaN | Num int

fun truthy :: "number \<Rightarrow> bool" where
  "truthy NaN = False"
| "truthy (Num n) = (n \<noteq> 0)"

record ENR =
  udp :: "number option"
  udp6 :: "number option"
  getLocationMultiaddr :: "string \<Rightarrow> multiaddr option"
  peerId :: "error + peer_id"

text \<open>\<open>ENRInput\<close>: a record object, or its text form.\<close>

datatype ENRInput = EnrText string | EnrObject ENR

text \<open>The payload of a \<open>"peer"\<close> event: \<open>{ id, multiaddrs }\<close>.\<close>

record peer_event =
  peer :: peer_id
  multiaddrs :: "multiaddr list"

text \<open>The calls the file makes on the engine.\<close>

datatype engine_call =
    Discv5_create ENRInput peer_id multiaddr
  | Discv5_start
  | Discv5_stop
  | Discv5_on string
  | Discv5_off string
  | Discv5_findNode string
  | Discv5_addEnr ENR

text \<open>
  The two callbacks the file hands to \<open>setTimeout\<close>: \<open>() => this.findPeers()\<close> in
  \<open>start\<close> and the resolver \<open>r\<close> of the sleep in \<open>findPeers\<close>.
\<close>

datatype timer_callback = CallFindPeers | ResolveSleep

record Discv5Discovery =
  discv5 :: "engine_call list"
  started :: bool
  lookupInterval :: number
  emitted :: "peer_event list"
  timers :: "(timer_callback \<times> number) list"

record IDiscv5DiscoveryOptions =
  opt_enr :: ENRInput
  opt_bindAddr :: string
  opt_bootEnrs :: "ENRInput list"
  opt_enabled :: bool
  opt_lookupInterval :: "number option"
  opt_peerId :: peer_id

text \<open>
  The functions of other modules that the file calls and that can throw:
  \<open>ENR.decodeTxt\<close>, \<open>new Multiaddr(...)\<close> and \<open>Discv5.create\<close>. They are parameters of
  the model.
\<close>

record externals =
  ENR_decodeTxt :: "string \<Rightarrow> error + ENR"
  Multiaddr_new :: "string \<Rightarrow> error + multiaddr"
  Discv5_create_throws :: "ENRInput \<Rightarrow> peer_id \<Rightarrow> multiaddr \<Rightarrow> error option"

definition defaultLookupInterval :: number where
  "defaultLookupInterval = Num (5 * 1000)"

subsection \<open>Record ingestion\<close>

text \<open>\<open>typeof enr === "string" ? ENR.decodeTxt(enr) : enr\<close>\<close>

fun decodedEnr :: "externals \<Rightarrow> ENRInput \<Rightarrow> error + ENR" where
  "decodedEnr ext (EnrText s) = ENR_decodeTxt ext s"
| "decodedEnr ext (EnrObject e) = Inr e"

text \<open>
  \<open>addEnr\<close> (synchronous). The engine's own \<open>addEnr\<close> is taken not to throw.
\<close>

definition addEnr :: "externals \<Rightarrow> ENRInput \<Rightarrow> Discv5Discovery \<Rightarrow> outcome \<times> Discv5Discovery" where
  "addEnr ext enr this =
     (case decodedEnr ext enr of
        Inl e \<Rightarrow> (Threw e, this)
      | Inr d \<Rightarrow>
          if udp d = None \<and> udp6 d = None
          then (Threw (Error ''invalid enr, missing udp information''), this)
          else (Returned, this\<lparr>discv5 := discv5 this @ [Discv5_addEnr d]\<rparr>))"

text \<open>
  \<open>handleEnr\<close> up to its only \<open>await\<close>: the task is pending on the promise of
  \<open>decodedEnr.peerId()\<close> and holds \<open>multiaddrTCP\<close> and \<open>multiaddrUDP\<close>.
\<close>

type_synonym handleEnr_task = "((error + peer_id) \<times> multiaddr \<times> multiaddr option) task"

definition handleEnr_call :: "externals \<Rightarrow> ENRInput \<Rightarrow> handleEnr_task" where
  "handleEnr_call ext enr =
     (case decodedEnr ext enr of
        Inl e \<Rightarrow> Settled (Threw e)
      | Inr d \<Rightarrow>
          (case getLocationMultiaddr d ''tcp'' of
             None \<Rightarrow> Settled Returned
           | Some multiaddrTCP \<Rightarrow>
               Pending (peerId d, multiaddrTCP, getLocationMultiaddr d ''udp'')))"

text \<open>\<open>handleEnr\<close> from the \<open>await\<close> on: the event is emitted once the peer id is there.\<close>

fun handleEnr_resume :: "handleEnr_task \<Rightarrow> Discv5Discovery \<Rightarrow> outcome \<times> Discv5Discovery" where
  "handleEnr_resume (Settled r) this = (r, this)"
| "handleEnr_resume (Pending (Inl e, multiaddrTCP, multiaddrUDP)) this = (Threw e, this)"
| "handleEnr_resume (Pending (Inr pid, multiaddrTCP, multiaddrUDP)) this =
     (Returned,
      this\<lparr>emitted := emitted this @
        [\<lparr>peer = pid,
          multiaddrs = (case multiaddrUDP of
                          Some u \<Rightarrow> [multiaddrTCP, u]
                        | None \<Rightarrow> [multiaddrTCP])\<rparr>]\<rparr>)"

text \<open>\<open>handleEnr\<close> run from its call to its end.\<close>

definition handleEnr :: "externals \<Rightarrow> ENRInput \<Rightarrow> Discv5Discovery \<Rightarrow> outcome \<times> Discv5Discovery" where
  "handleEnr ext enr this = handleEnr_resume (handleEnr_call ext enr) this"

subsection \<open>Lifecycle\<close>

text \<open>
  The constructor. \<open>addEnr\<close> is synchronous and its throw leaves the \<open>forEach\<close> and
  the constructor; \<open>handleEnr\<close> is called and not awaited, so it leaves one
  \<open>handleEnr\<close> task per boot record it was called on, none of them resumed yet.

  The \<open>forEach\<close> keeps what it has done when it throws: the calls made on the engine
  and the \<open>handleEnr\<close> tasks begun are not undone by the throw.
\<close>

fun bootEnrs_forEach ::
  "externals \<Rightarrow> ENRInput list \<Rightarrow> Discv5Discovery \<times> handleEnr_task list \<Rightarrow>
   outcome \<times> Discv5Discovery \<times> handleEnr_task list" where
  "bootEnrs_forEach ext [] (this, floating) = (Returned, this, floating)"
| "bootEnrs_forEach ext (bootEnr # rest) (this, floating) =
     (case addEnr ext bootEnr this of
        (Threw e, this') \<Rightarrow> (Threw e, this', floating)
      | (Returned, this') \<Rightarrow>
          bootEnrs_forEach ext rest (this', floating @ [handleEnr_call ext bootEnr]))"

text \<open>
  The body of the constructor: it throws before the fields are set (\<open>Inl\<close>: the bind
  address does not parse, or \<open>Discv5.create\<close> throws), or it sets the fields and runs
  the \<open>forEach\<close>.
\<close>

definition constructor_body ::
  "externals \<Rightarrow> IDiscv5DiscoveryOptions \<Rightarrow>
   error + outcome \<times> Discv5Discovery \<times> handleEnr_task list" where
  "constructor_body ext options =
     (case Multiaddr_new ext (opt_bindAddr options) of
        Inl e \<Rightarrow> Inl e
      | Inr ma \<Rightarrow>
          (case Discv5_create_throws ext (opt_enr options) (opt_peerId options) ma of
             Some e \<Rightarrow> Inl e
           | None \<Rightarrow>
               Inr (bootEnrs_forEach ext (opt_bootEnrs options)
                 (\<lparr>discv5 = [Discv5_create (opt_enr options) (opt_peerId options) ma],
                   started = False,
                   lookupInterval =
                     (case opt_lookupInterval options of
                        None \<Rightarrow> defaultLookupInterval
                      | Some n \<Rightarrow> if truthy n then n else defaultLookupInterval),
                   emitted = [],
                   timers = []\<rparr>, []))))"

text \<open>
  \<open>new Discv5Discovery(options)\<close>, as its caller sees it: the controller (with the
  \<open>handleEnr\<close> tasks left to run), or the error thrown.
\<close>

definition constructor ::
  "externals \<Rightarrow> IDiscv5DiscoveryOptions \<Rightarrow> error + Discv5Discovery \<times> handleEnr_task list" where
  "constructor ext options =
     (case constructor_body ext options of
        Inl e \<Rightarrow> Inl e
      | Inr (Threw e, this, floating) \<Rightarrow> Inl e
      | Inr (Returned, this, floating) \<Rightarrow> Inr (this, floating))"

text \<open>\<open>start\<close>: the call up to \<open>await this.discv5.start()\<close>, and the rest.\<close>

definition start_call :: "Discv5Discovery \<Rightarrow> unit task \<times> Discv5Discovery" where
  "start_call this =
     (if started this then (Settled Returned, this)
      else (Pending (), this\<lparr>started := True, discv5 := discv5 this @ [Discv5_start]\<rparr>))"

fun start_resume :: "outcome \<Rightarrow> unit task \<Rightarrow> Discv5Discovery \<Rightarrow> outcome \<times> Discv5Discovery" where
  "start_resume engine (Settled r) this = (r, this)"
| "start_resume (Threw e) (Pending ()) this = (Threw e, this)"
| "start_resume Returned (Pending ()) this =
     (Returned,
      this\<lparr>discv5 := discv5 this @ [Discv5_on ''discovered''],
           timers := timers this @ [(CallFindPeers, Num 1)]\<rparr>)"

text \<open>\<open>start\<close> run from its call to its end; \<open>engine\<close> is how \<open>discv5.start()\<close> settles.\<close>

definition start :: "outcome \<Rightarrow> Discv5Discovery \<Rightarrow> outcome \<times> Discv5Discovery" where
  "start engine this = (case start_call this of (t, this') \<Rightarrow> start_resume engine t this')"

text \<open>\<open>stop\<close>: the call up to \<open>await this.discv5.stop()\<close>, and the rest.\<close>

definition stop_call :: "Discv5Discovery \<Rightarrow> unit task \<times> Discv5Discovery" where
  "stop_call this =
     (if \<not> started this then (Settled Returned, this)
      else (Pending (),
            this\<lparr>started := False,
                 discv5 := discv5 this @ [Discv5_off ''discovered'', Discv5_stop]\<rparr>))"

fun stop_resume :: "outcome \<Rightarrow> unit task \<Rightarrow> Discv5Discovery \<Rightarrow> outcome \<times> Discv5Discovery" where
  "stop_resume engine (Settled r) this = (r, this)"
| "stop_resume engine (Pending ()) this = (engine, this)"

definition stop :: "outcome \<Rightarrow> Discv5Discovery \<Rightarrow> outcome \<times> Discv5Discovery" where
  "stop engine this = (case stop_call this of (t, this') \<Rightarrow> stop_resume engine t this')"

subsection \<open>The polling loop\<close>

text \<open>
  The \<open>await\<close>s of \<open>findPeers\<close>: on \<open>discv5.findNode\<close>, on \<open>this.handleEnr(enr)\<close>
  inside the \<open>for\<close> (with the records still to come), and on the sleep.
\<close>

datatype findPeers_await =
    AwaitFindNode
  | AwaitHandleEnr handleEnr_task "ENRInput list"
  | AwaitSleep

type_synonym findPeers_task = "findPeers_await task"

text \<open>
  What the environment supplies to a step of the loop: the 32 random bytes of the next
  target and the way the pending \<open>findNode\<close> settles.
\<close>

record findPeers_env =
  randomBytes32 :: string
  findNode_result :: "error + ENRInput list"

text \<open>The head of the \<open>while\<close>: \<open>while (this.started) { const enrs = await findNode(...)\<close>.\<close>

definition findPeers_while :: "findPeers_env \<Rightarrow> Discv5Discovery \<Rightarrow> findPeers_task \<times> Discv5Discovery" where
  "findPeers_while env this =
     (if started this
      then (Pending AwaitFindNode,
            this\<lparr>discv5 := discv5 this @ [Discv5_findNode (randomBytes32 env)]\<rparr>)
      else (Settled Returned, this))"

text \<open>The \<open>for\<close> over the records still to come, then the sleep.\<close>

fun findPeers_for :: "externals \<Rightarrow> ENRInput list \<Rightarrow> Discv5Discovery \<Rightarrow> findPeers_task \<times> Discv5Discovery" where
  "findPeers_for ext [] this =
     (Pending AwaitSleep, this\<lparr>timers := timers this @ [(ResolveSleep, lookupInterval this)]\<rparr>)"
| "findPeers_for ext (enr # rest) this =
     (Pending (AwaitHandleEnr (handleEnr_call ext enr) rest), this)"

text \<open>The call \<open>this.findPeers()\<close>, up to its first \<open>await\<close>.\<close>

definition findPeers_call :: "findPeers_env \<Rightarrow> Discv5Discovery \<Rightarrow> findPeers_task \<times> Discv5Discovery" where
  "findPeers_call env this = findPeers_while env this"

text \<open>One step of a \<open>findPeers\<close> task: from the \<open>await\<close> it is pending on to the next.\<close>

fun findPeers_resume ::
  "externals \<Rightarrow> findPeers_env \<Rightarrow> findPeers_task \<Rightarrow> Discv5Discovery \<Rightarrow>
   findPeers_task \<times> Discv5Discovery" where
  "findPeers_resume ext env (Settled r) this = (Settled r, this)"
| "findPeers_resume ext env (Pending AwaitFindNode) this =
     (case findNode_result env of
        Inl e \<Rightarrow> (Settled (Threw e), this)
      | Inr enrs \<Rightarrow>
          if \<not> started this then (Settled Returned, this)
          else findPeers_for ext enrs this)"
| "findPeers_resume ext env (Pending (AwaitHandleEnr h rest)) this =
     (case handleEnr_resume h this of
        (Threw e, this') \<Rightarrow> (Settled (Threw e), this')
      | (Returned, this') \<Rightarrow> findPeers_for ext rest this')"
| "findPeers_resume ext env (Pending AwaitSleep) this = findPeers_while env this"

text \<open>A run of the task: one step per entry of the schedule.\<close>

fun findPeers_run ::
  "externals \<Rightarrow> findPeers_env list \<Rightarrow> findPeers_task \<times> Discv5Discovery \<Rightarrow>
   findPeers_task \<times> Discv5Discovery" where
  "findPeers_run ext [] c = c"
| "findPeers_run ext (env # envs) (t, this) = findPeers_run ext envs (findPeers_resume ext env t this)"

subsection \<open>Interleavings\<close>




subsection \<open>Concrete records, externals and states\<close>

text \<open>
  Four records, by what \<open>getLocationMultiaddr\<close> yields for them: a UDP endpoint only,
  a TCP endpoint only, both, neither. The TCP-only record has no \<open>udp\<close> port either.
\<close>

definition enr_udp_only :: ENR where
  "enr_udp_only =
     \<lparr>udp = Some (Num 9000), udp6 = None,
      getLocationMultiaddr = (\<lambda>p. if p = ''udp'' then Some ''/ip4/10.0.0.1/udp/9000'' else None),
      peerId = Inr ''peerA''\<rparr>"

definition enr_tcp_only :: ENR where
  "enr_tcp_only =
     \<lparr>udp = None, udp6 = None,
      getLocationMultiaddr = (\<lambda>p. if p = ''tcp'' then Some ''/ip4/10.0.0.2/tcp/4000'' else None),
      peerId = Inr ''peerB''\<rparr>"

definition enr_both :: ENR where
  "enr_both =
     \<lparr>udp = Some (Num 9000), udp6 = None,
      getLocationMultiaddr =
        (\<lambda>p. if p = ''tcp'' then Some ''/ip4/10.0.0.3/tcp/4000''
             else if p = ''udp'' then Some ''/ip4/10.0.0.3/udp/9000'' else None),
      peerId = Inr ''peerC''\<rparr>"

definition enr_neither :: ENR where
  "enr_neither =
     \<lparr>udp = None, udp6 = None, getLocationMultiaddr = (\<lambda>p. None), peerId = Inr ''peerD''\<rparr>"

text \<open>Externals that decode one text, accept every bind address and create the engine.\<close>

definition ext0 :: externals where
  "ext0 =
     \<lparr>ENR_decodeTxt = (\<lambda>s. if s = ''enr:both'' then Inr enr_both else Inl (Error ''failed to decode'')),
      Multiaddr_new = (\<lambda>s. Inr s),
      Discv5_create_throws = (\<lambda>e p m. None)\<rparr>"

text \<open>A stopped controller with nothing done yet.\<close>

definition this0 :: Discv5Discovery where
  "this0 = \<lparr>discv5 = [], started = False, lookupInterval = Num 5000, emitted = [], timers = []\<rparr>"

text \<open>
  Construction options with two boot records and a lookup interval of \<open>0\<close>.
\<close>

definition options0 :: IDiscv5DiscoveryOptions where
  "options0 =
     \<lparr>opt_enr = EnrText ''enr:local'', opt_bindAddr = ''/ip4/0.0.0.0/udp/9000'',
      opt_bootEnrs = [EnrText ''enr:both'', EnrObject enr_udp_only],
      opt_enabled = True, opt_lookupInterval = Some (Num 0), opt_peerId = ''local''\<rparr>"

text \<open>A running controller whose polling loop has a lookup in flight.\<close>

definition this_running :: Discv5Discovery where
  "this_running =
     \<lparr>discv5 = [Discv5_start, Discv5_on ''discovered'', Discv5_findNode ''r1''],
      started = True, lookupInterval = Num 5000, emitted = [],
      timers = [(CallFindPeers, Num 1)]\<rparr>"

text \<open>An environment whose lookup returns two records.\<close>

definition env0 :: findPeers_env where
  "env0 = \<lparr>randomBytes32 = ''r2'',
           findNode_result = Inr [EnrObject enr_both, EnrObject enr_tcp_only]\<rparr>"


text \<open>
  Construction options whose second boot record has neither \<open>udp\<close> nor \<open>udp6\<close>; the
  first and the third have a \<open>udp\<close> port.
\<close>

definition options_rejected :: IDiscv5DiscoveryOptions where
  "options_rejected =
     \<lparr>opt_enr = EnrText ''enr:local'', opt_bindAddr = ''/ip4/0.0.0.0/udp/9000'',
      opt_bootEnrs = [EnrObject enr_both, EnrObject enr_tcp_only, EnrObject enr_udp_only],
      opt_enabled = True, opt_lookupInterval = None, opt_peerId = ''local''\<rparr>"

section \<open>Properties\<close>

subsection \<open>What the constructor's loop leaves behind\<close>

lemma addEnr_Threw_state: "addEnr ext b this = (Threw e, this') \<Longrightarrow> this' = this"
  by (auto simp: addEnr_def split: sum.splits if_splits)

lemma bootEnrs_forEach_Returned:
  "bootEnrs_forEach ext bs (this, fl) = (Returned, this', fl') \<Longrightarrow>
   \<exists>ds. map (decodedEnr ext) bs = map Inr ds \<and>
        list_all (\<lambda>d. \<not> (udp d = None \<and> udp6 d = None)) ds \<and>
        this' = this\<lparr>discv5 := discv5 this @ map Discv5_addEnr ds\<rparr> \<and>
        fl' = fl @ map (handleEnr_call ext) bs"
proof (induction bs arbitrary: this fl)
  case Nil
  then show ?case by simp
next
  case (Cons b bs)
  from Cons.prems obtain d where d: "decodedEnr ext b = Inr d"
    and u: "\<not> (udp d = None \<and> udp6 d = None)"
    and rest: "bootEnrs_forEach ext bs
                 (this\<lparr>discv5 := discv5 this @ [Discv5_addEnr d]\<rparr>, fl @ [handleEnr_call ext b])
               = (Returned, this', fl')"
    by (auto simp: addEnr_def split: sum.splits if_splits)
  from Cons.IH [OF rest] obtain ds where
    ds: "map (decodedEnr ext) bs = map Inr ds"
      "list_all (\<lambda>d. \<not> (udp d = None \<and> udp6 d = None)) ds"
      "this' = this\<lparr>discv5 := discv5 this @ [Discv5_addEnr d]\<rparr>
                 \<lparr>discv5 := discv5 (this\<lparr>discv5 := discv5 this @ [Discv5_addEnr d]\<rparr>) @ map Discv5_addEnr ds\<rparr>"
      "fl' = (fl @ [handleEnr_call ext b]) @ map (handleEnr_call ext) bs"
    by blast
  show ?case
    by (rule exI [of _ "d # ds"]) (use d u ds in simp)
qed

lemma constructor_Inr:
  assumes "constructor ext options = Inr (this, floating)"
  shows "\<exists>ma ds. Multiaddr_new ext (opt_bindAddr options) = Inr ma \<and>
           map (decodedEnr ext) (opt_bootEnrs options) = map Inr ds \<and>
           list_all (\<lambda>d. \<not> (udp d = None \<and> udp6 d = None)) ds \<and>
           this = \<lparr>discv5 = Discv5_create (opt_enr options) (opt_peerId options) ma # map Discv5_addEnr ds,
                   started = False,
                   lookupInterval =
                     (case opt_lookupInterval options of
                        None \<Rightarrow> defaultLookupInterval
                      | Some n \<Rightarrow> if truthy n then n else defaultLookupInterval),
                   emitted = [], timers = []\<rparr> \<and>
           floating = map (handleEnr_call ext) (opt_bootEnrs options)"
proof -
  from assms obtain ma where ma: "Multiaddr_new ext (opt_bindAddr options) = Inr ma"
    and fe: "bootEnrs_forEach ext (opt_bootEnrs options)
                 (\<lparr>discv5 = [Discv5_create (opt_enr options) (opt_peerId options) ma],
                   started = False,
                   lookupInterval =
                     (case opt_lookupInterval options of
                        None \<Rightarrow> defaultLookupInterval
                      | Some n \<Rightarrow> if truthy n then n else defaultLookupInterval),
                   emitted = [],
                   timers = []\<rparr>, []) = (Returned, this, floating)"
    by (auto simp: constructor_def constructor_body_def
        split: sum.splits option.splits prod.splits outcome.splits)
  from bootEnrs_forEach_Returned [OF fe] ma show ?thesis by auto
qed

text \<open>
  The \<open>forEach\<close> over boot records that \<open>addEnr\<close> accepts, followed by any others.
\<close>

lemma bootEnrs_forEach_accepted:
  "map (decodedEnr ext) pre = map Inr ds \<Longrightarrow>
   list_all (\<lambda>d. udp d \<noteq> None \<or> udp6 d \<noteq> None) ds \<Longrightarrow>
   bootEnrs_forEach ext (pre @ rest) (this, fl) =
     bootEnrs_forEach ext rest
       (this\<lparr>discv5 := discv5 this @ map Discv5_addEnr ds\<rparr>, fl @ map (handleEnr_call ext) pre)"
proof (induction pre arbitrary: ds this fl)
  case Nil
  then show ?case by simp
next
  case (Cons b bs)
  from Cons.prems(1) obtain d ds' where ds: "ds = d # ds'" "decodedEnr ext b = Inr d"
    "map (decodedEnr ext) bs = map Inr ds'"
    by (cases ds) auto
  with Cons.prems(2) have u: "udp d \<noteq> None \<or> udp6 d \<noteq> None"
    and rest: "list_all (\<lambda>d. udp d \<noteq> None \<or> udp6 d \<noteq> None) ds'"
    by simp_all
  from ds(2) u have "addEnr ext b this = (Returned, this\<lparr>discv5 := discv5 this @ [Discv5_addEnr d]\<rparr>)"
    by (auto simp: addEnr_def)
  then show ?case
    using Cons.IH [OF ds(3) rest] ds(1) by simp
qed

lemma bootEnrs_forEach_rejected:
  assumes "fst (addEnr ext b this) = Threw e"
  shows "bootEnrs_forEach ext (b # later) (this, fl) = (Threw e, this, fl)"
proof -
  obtain this' where a: "addEnr ext b this = (Threw e, this')"
    using assms by (cases "addEnr ext b this") simp
  with addEnr_Threw_state [OF a] show ?thesis by simp
qed

text \<open>
  Every seed set is a run of boot records that \<open>addEnr\<close> accepts, followed by nothing
  or by a record that \<open>addEnr\<close> rejects whatever the controller.
\<close>

lemma bootEnrs_split:
  "\<exists>pre rest ds. bs = pre @ rest \<and> map (decodedEnr ext) pre = map Inr ds \<and>
     list_all (\<lambda>d. udp d \<noteq> None \<or> udp6 d \<noteq> None) ds \<and>
     (rest = [] \<or> (\<exists>e. \<forall>this. fst (addEnr ext (hd rest) this) = Threw e))"
proof (induction bs)
  case Nil
  show ?case by (rule exI [of _ "[]"], rule exI [of _ "[]"], rule exI [of _ "[]"]) simp
next
  case (Cons b bs)
  then obtain pre rest ds where ih: "bs = pre @ rest" "map (decodedEnr ext) pre = map Inr ds"
    "list_all (\<lambda>d. udp d \<noteq> None \<or> udp6 d \<noteq> None) ds"
    "rest = [] \<or> (\<exists>e. \<forall>this. fst (addEnr ext (hd rest) this) = Threw e)"
    by blast
  show ?case
  proof (cases "\<exists>d. decodedEnr ext b = Inr d \<and> (udp d \<noteq> None \<or> udp6 d \<noteq> None)")
    case True
    then obtain d where d: "decodedEnr ext b = Inr d" "udp d \<noteq> None \<or> udp6 d \<noteq> None"
      by blast
    show ?thesis
      by (rule exI [of _ "b # pre"], rule exI [of _ rest], rule exI [of _ "d # ds"])
        (use ih d in simp)
  next
    case False
    then have "\<exists>e. \<forall>this. fst (addEnr ext b this) = Threw e"
      by (cases "decodedEnr ext b") (auto simp: addEnr_def)
    then show ?thesis
      by (intro exI [of _ "[]"] exI [of _ "b # bs"]) simp
  qed
qed

text \<open>The constructor on \<open>options0\<close>.\<close>

lemma constructor_options0:
  "constructor ext0 options0 =
     Inr (\<lparr>discv5 = [Discv5_create (EnrText ''enr:local'') ''local'' ''/ip4/0.0.0.0/udp/9000'',
                      Discv5_addEnr enr_both, Discv5_addEnr enr_udp_only],
           started = False, lookupInterval = Num 5000, emitted = [], timers = []\<rparr>,
          [handleEnr_call ext0 (EnrText ''enr:both''), handleEnr_call ext0 (EnrObject enr_udp_only)])"
  by (simp add: constructor_def constructor_body_def options0_def ext0_def addEnr_def
      enr_both_def enr_udp_only_def defaultLookupInterval_def)

subsection \<open>The run-flag and the lookup interval under the steps\<close>

lemma stop_not_started: "\<not> started (snd (stop engine this))"
  by (simp add: stop_def stop_call_def)

lemma findPeers_run_Settled: "findPeers_run ext envs (Settled r, this) = (Settled r, this)"
  by (induction envs) simp_all

lemma findPeers_resume_stopped:
  "\<not> started this \<Longrightarrow> t = Pending AwaitFindNode \<or> t = Pending AwaitSleep \<Longrightarrow>
   \<exists>r. findPeers_resume ext env t this = (Settled r, this)"
  by (auto simp: findPeers_while_def split: sum.splits)

lemma findPeers_run_stopped:
  assumes "\<not> started this" and "t = Pending AwaitFindNode \<or> t = Pending AwaitSleep"
  shows "snd (findPeers_run ext envs (t, this)) = this"
proof (cases envs)
  case Nil
  then show ?thesis by simp
next
  case (Cons env rest)
  from findPeers_resume_stopped [OF assms] obtain r
    where "findPeers_resume ext env t this = (Settled r, this)" by blast
  with Cons show ?thesis by (simp add: findPeers_run_Settled)
qed





subsection \<open>Lazy ingestion: \<open>handleEnr\<close>\<close>

text \<open>
  Claim C1, as amended. \<open>handleEnr\<close> returns early when \<open>getLocationMultiaddr("tcp")\<close>
  is undefined, and only then looks at UDP. So a validly decoded record that exposes a
  TCP endpoint and no UDP endpoint, and whose peer id is derived, makes \<open>handleEnr\<close>
  emit exactly one \<open>"peer"\<close> event, whose address list is that TCP endpoint alone
  (length 1); a record that exposes a UDP endpoint and no TCP endpoint makes it emit
  nothing and return without error.
\<close>

theorem handleEnr_single_endpoint:
  assumes "decodedEnr ext enr = Inr d"
  shows "(getLocationMultiaddr d ''tcp'' = Some t \<and> getLocationMultiaddr d ''udp'' = None \<and>
          peerId d = Inr pid \<longrightarrow>
            handleEnr ext enr this =
              (Returned, this\<lparr>emitted := emitted this @ [\<lparr>peer = pid, multiaddrs = [t]\<rparr>]\<rparr>)) \<and>
         (getLocationMultiaddr d ''udp'' = Some u \<and> getLocationMultiaddr d ''tcp'' = None \<longrightarrow>
            handleEnr ext enr this = (Returned, this))"
  using assms by (simp add: handleEnr_def handleEnr_call_def)

theorem handleEnr_single_endpoint_witness:
  "decodedEnr ext0 (EnrObject enr_tcp_only) = Inr enr_tcp_only \<and>
   getLocationMultiaddr enr_tcp_only ''tcp'' = Some ''/ip4/10.0.0.2/tcp/4000'' \<and>
   getLocationMultiaddr enr_tcp_only ''udp'' = None \<and>
   peerId enr_tcp_only = Inr ''peerB'' \<and>
   handleEnr ext0 (EnrObject enr_tcp_only) this0 =
     (Returned, this0\<lparr>emitted := [\<lparr>peer = ''peerB'', multiaddrs = [''/ip4/10.0.0.2/tcp/4000'']\<rparr>]\<rparr>) \<and>
   decodedEnr ext0 (EnrObject enr_udp_only) = Inr enr_udp_only \<and>
   getLocationMultiaddr enr_udp_only ''udp'' = Some ''/ip4/10.0.0.1/udp/9000'' \<and>
   getLocationMultiaddr enr_udp_only ''tcp'' = None \<and>
   handleEnr ext0 (EnrObject enr_udp_only) this0 = (Returned, this0)"
  using handleEnr_single_endpoint [of ext0 "EnrObject enr_tcp_only" enr_tcp_only
      "''/ip4/10.0.0.2/tcp/4000''" "''peerB''" this0]
    handleEnr_single_endpoint [of ext0 "EnrObject enr_udp_only" enr_udp_only
      _ _ this0 "''/ip4/10.0.0.1/udp/9000''"]
  by (simp add: enr_tcp_only_def enr_udp_only_def this0_def)

text \<open>
  Claim C1 as stated fails: the record \<open>enr_udp_only\<close> exposes a UDP endpoint and no
  TCP endpoint, and \<open>handleEnr\<close> emits no event for it.
\<close>

theorem handleEnr_udp_only_counterexample:
  "decodedEnr ext0 (EnrObject enr_udp_only) = Inr enr_udp_only \<and>
   getLocationMultiaddr enr_udp_only ''udp'' = Some ''/ip4/10.0.0.1/udp/9000'' \<and>
   getLocationMultiaddr enr_udp_only ''tcp'' = None \<and>
   emitted this0 = [] \<and>
   emitted (snd (handleEnr ext0 (EnrObject enr_udp_only) this0)) = []"
  by (simp add: handleEnr_def handleEnr_call_def enr_udp_only_def this0_def)

text \<open>
  Claim C2, as amended. A validly decoded record that exposes both a TCP and a UDP
  endpoint, and whose peer id is derived, makes \<open>handleEnr\<close> emit exactly one
  \<open>"peer"\<close> event whose address list has exactly two elements: the TCP endpoint first,
  the UDP endpoint second.
\<close>

theorem handleEnr_both_endpoints:
  assumes "decodedEnr ext enr = Inr d"
    and "getLocationMultiaddr d ''tcp'' = Some t"
    and "getLocationMultiaddr d ''udp'' = Some u"
    and "peerId d = Inr pid"
  shows "handleEnr ext enr this =
           (Returned, this\<lparr>emitted := emitted this @ [\<lparr>peer = pid, multiaddrs = [t, u]\<rparr>]\<rparr>)"
  using assms by (simp add: handleEnr_def handleEnr_call_def)

theorem handleEnr_both_endpoints_witness:
  "decodedEnr ext0 (EnrText ''enr:both'') = Inr enr_both \<and>
   getLocationMultiaddr enr_both ''tcp'' = Some ''/ip4/10.0.0.3/tcp/4000'' \<and>
   getLocationMultiaddr enr_both ''udp'' = Some ''/ip4/10.0.0.3/udp/9000'' \<and>
   peerId enr_both = Inr ''peerC'' \<and>
   handleEnr ext0 (EnrText ''enr:both'') this0 =
     (Returned,
      this0\<lparr>emitted :=
        [\<lparr>peer = ''peerC'',
          multiaddrs = [''/ip4/10.0.0.3/tcp/4000'', ''/ip4/10.0.0.3/udp/9000'']\<rparr>]\<rparr>)"
  using handleEnr_both_endpoints [of ext0 "EnrText ''enr:both''" enr_both
      "''/ip4/10.0.0.3/tcp/4000''" "''/ip4/10.0.0.3/udp/9000''" "''peerC''" this0]
  by (simp add: ext0_def enr_both_def this0_def)

text \<open>
  Claim C2 as stated fails: for the record \<open>enr_both\<close> the one event lists the TCP
  endpoint first, not the UDP endpoint.
\<close>

theorem handleEnr_udp_first_counterexample:
  "decodedEnr ext0 (EnrObject enr_both) = Inr enr_both \<and>
   getLocationMultiaddr enr_both ''udp'' = Some ''/ip4/10.0.0.3/udp/9000'' \<and>
   getLocationMultiaddr enr_both ''tcp'' = Some ''/ip4/10.0.0.3/tcp/4000'' \<and>
   map multiaddrs (emitted (snd (handleEnr ext0 (EnrObject enr_both) this0))) =
     [[''/ip4/10.0.0.3/tcp/4000'', ''/ip4/10.0.0.3/udp/9000'']] \<and>
   hd (multiaddrs (hd (emitted (snd (handleEnr ext0 (EnrObject enr_both) this0))))) \<noteq>
     ''/ip4/10.0.0.3/udp/9000''"
  by (simp add: handleEnr_def handleEnr_call_def enr_both_def this0_def)

text \<open>
  Claim C3, as amended. The endpoint whose absence makes \<open>handleEnr\<close> a no-op is the
  TCP one: for every decoded record for which \<open>getLocationMultiaddr("tcp")\<close> is
  undefined, \<open>handleEnr\<close> emits no event, raises no error and leaves the controller
  as it was. A record with neither a TCP nor a UDP endpoint is such a record.
\<close>

theorem handleEnr_no_tcp_ignored:
  assumes "decodedEnr ext enr = Inr d"
    and "getLocationMultiaddr d ''tcp'' = None"
  shows "handleEnr ext enr this = (Returned, this)"
  using assms by (simp add: handleEnr_def handleEnr_call_def)

theorem handleEnr_no_tcp_ignored_witness:
  "decodedEnr ext0 (EnrObject enr_neither) = Inr enr_neither \<and>
   getLocationMultiaddr enr_neither ''tcp'' = None \<and>
   getLocationMultiaddr enr_neither ''udp'' = None \<and>
   handleEnr ext0 (EnrObject enr_neither) this0 = (Returned, this0)"
  using handleEnr_no_tcp_ignored [of ext0 "EnrObject enr_neither" enr_neither this0]
  by (simp add: enr_neither_def)

text \<open>
  Claim C3 as stated fails: the record \<open>enr_tcp_only\<close> has no UDP endpoint, and
  \<open>handleEnr\<close> emits an event for it.
\<close>

theorem handleEnr_no_udp_counterexample:
  "decodedEnr ext0 (EnrObject enr_tcp_only) = Inr enr_tcp_only \<and>
   getLocationMultiaddr enr_tcp_only ''udp'' = None \<and>
   emitted this0 = [] \<and>
   emitted (snd (handleEnr ext0 (EnrObject enr_tcp_only) this0)) =
     [\<lparr>peer = ''peerB'', multiaddrs = [''/ip4/10.0.0.2/tcp/4000'']\<rparr>]"
  by (simp add: handleEnr_def handleEnr_call_def enr_tcp_only_def this0_def)

subsection \<open>Strict ingestion: \<open>addEnr\<close>\<close>

text \<open>
  Claim C4. For every record, given decoded or as a text that decodes, whose \<open>udp\<close>
  and \<open>udp6\<close> are both undefined, \<open>addEnr\<close> throws (the error of the message
  \<open>invalid enr, missing udp information\<close>, which the specification calls
  InvalidInputError) and the engine's \<open>addEnr\<close> is not called: the controller is left as
  it was. For every record with at least one of the two defined, \<open>addEnr\<close> returns and
  has forwarded the decoded record to the engine.
\<close>

theorem addEnr_requires_udp:
  assumes "decodedEnr ext enr = Inr d"
  shows "(udp d = None \<and> udp6 d = None \<longrightarrow>
            addEnr ext enr this = (Threw (Error ''invalid enr, missing udp information''), this)) \<and>
         (udp d \<noteq> None \<or> udp6 d \<noteq> None \<longrightarrow>
            addEnr ext enr this = (Returned, this\<lparr>discv5 := discv5 this @ [Discv5_addEnr d]\<rparr>))"
  using assms by (auto simp: addEnr_def)

theorem addEnr_requires_udp_witness:
  "decodedEnr ext0 (EnrObject enr_tcp_only) = Inr enr_tcp_only \<and>
   udp enr_tcp_only = None \<and> udp6 enr_tcp_only = None \<and>
   addEnr ext0 (EnrObject enr_tcp_only) this0 =
     (Threw (Error ''invalid enr, missing udp information''), this0) \<and>
   discv5 (snd (addEnr ext0 (EnrObject enr_tcp_only) this0)) = [] \<and>
   decodedEnr ext0 (EnrText ''enr:both'') = Inr enr_both \<and>
   udp enr_both = Some (Num 9000) \<and>
   addEnr ext0 (EnrText ''enr:both'') this0 = (Returned, this0\<lparr>discv5 := [Discv5_addEnr enr_both]\<rparr>)"
  using addEnr_requires_udp [of ext0 "EnrObject enr_tcp_only" enr_tcp_only this0]
    addEnr_requires_udp [of ext0 "EnrText ''enr:both''" enr_both this0]
  by (simp add: ext0_def enr_tcp_only_def enr_both_def this0_def)

subsection \<open>The polling loop after \<open>stop\<close>\<close>

text \<open>
  Claim C5, as amended. Once \<open>stop()\<close> has settled the run-flag is Stopped, and a
  polling loop that is then awaiting a \<open>findNode\<close> lookup, sleeping, or only being
  called emits no further \<open>"peer"\<close> event: when the lookup that was in flight returns,
  the loop re-checks the flag and returns without ingesting any of the returned
  records (or rejects with the lookup's error); after the sleep and at its call the
  \<open>while\<close> test ends it; and whatever the schedule from then on, the controller
  stays as \<open>stop()\<close> left it. (The flag is not tested between the records of one
  batch; a loop that is already ingesting a batch is not covered.)
\<close>

theorem findPeers_discards_after_stop:
  assumes "stop engine before = (r, this)"
  shows "\<not> started this \<and>
         findPeers_resume ext env (Pending AwaitFindNode) this =
           (Settled (case findNode_result env of Inl e \<Rightarrow> Threw e | Inr enrs \<Rightarrow> Returned), this) \<and>
         findPeers_resume ext env (Pending AwaitSleep) this = (Settled Returned, this) \<and>
         findPeers_call env this = (Settled Returned, this) \<and>
         (t = Pending AwaitFindNode \<or> t = Pending AwaitSleep \<longrightarrow>
            snd (findPeers_run ext envs (t, this)) = this)"
proof -
  from assms have ns: "\<not> started this"
    using stop_not_started [of engine before] by simp
  then show ?thesis
    by (auto simp: findPeers_call_def findPeers_while_def findPeers_run_stopped split: sum.splits)
qed

theorem findPeers_discards_after_stop_witness:
  "stop Returned this_running =
     (Returned, this_running\<lparr>started := False,
        discv5 := discv5 this_running @ [Discv5_off ''discovered'', Discv5_stop]\<rparr>) \<and>
   findNode_result env0 = Inr [EnrObject enr_both, EnrObject enr_tcp_only] \<and>
   findPeers_resume ext0 env0 (Pending AwaitFindNode) (snd (stop Returned this_running)) =
     (Settled Returned, snd (stop Returned this_running)) \<and>
   emitted (snd (findPeers_run ext0 [env0, env0] (Pending AwaitFindNode, snd (stop Returned this_running)))) = []"
  using findPeers_discards_after_stop [of Returned this_running Returned "snd (stop Returned this_running)"
      ext0 env0 "Pending AwaitFindNode" "[env0, env0]"]
  by (simp add: stop_def stop_call_def this_running_def env0_def)

text \<open>
  Claim C5 as stated fails: the loop of \<open>this_running\<close> has received two records and
  is awaiting \<open>handleEnr\<close> on the first when \<open>stop()\<close> is called and resolves; the flag is
  Stopped, nothing has been emitted, and the next two steps of the loop emit both
  records' events.
\<close>

theorem findPeers_emits_after_stop_counterexample:
  "started this_running \<and>
   findPeers_resume ext0 env0 (Pending AwaitFindNode) this_running =
     (Pending (AwaitHandleEnr (handleEnr_call ext0 (EnrObject enr_both)) [EnrObject enr_tcp_only]),
      this_running) \<and>
   fst (stop Returned this_running) = Returned \<and>
   \<not> started (snd (stop Returned this_running)) \<and>
   emitted (snd (stop Returned this_running)) = [] \<and>
   emitted (snd (findPeers_run ext0 [env0, env0]
      (Pending (AwaitHandleEnr (handleEnr_call ext0 (EnrObject enr_both)) [EnrObject enr_tcp_only]),
       snd (stop Returned this_running)))) =
     [\<lparr>peer = ''peerC'', multiaddrs = [''/ip4/10.0.0.3/tcp/4000'', ''/ip4/10.0.0.3/udp/9000'']\<rparr>,
      \<lparr>peer = ''peerB'', multiaddrs = [''/ip4/10.0.0.2/tcp/4000'']\<rparr>]"
  by (simp add: stop_def stop_call_def this_running_def env0_def handleEnr_call_def
      enr_both_def enr_tcp_only_def)

subsection \<open>\<open>start\<close> and \<open>stop\<close>\<close>

text \<open>
  Claim C6. Two calls of \<open>start()\<close> in a row: the second returns at once and changes
  nothing, whether the first has run to its end or is still awaiting the engine. Over
  the two calls the engine's \<open>start()\<close> is invoked once if the controller was stopped
  and not at all otherwise, and the \<open>"discovered"\<close> handler is subscribed once if the
  controller was stopped and the engine started, and not at all otherwise.
\<close>

theorem start_twice_idempotent:
  "start engine2 (snd (start engine1 this)) = (Returned, snd (start engine1 this)) \<and>
   start_call (snd (start_call this)) = (Settled Returned, snd (start_call this)) \<and>
   length (filter (\<lambda>c. c = Discv5_start) (discv5 (snd (start engine2 (snd (start engine1 this)))))) =
     length (filter (\<lambda>c. c = Discv5_start) (discv5 this)) + (if started this then 0 else 1) \<and>
   length (filter (\<lambda>c. c = Discv5_on ''discovered'')
       (discv5 (snd (start engine2 (snd (start engine1 this)))))) =
     length (filter (\<lambda>c. c = Discv5_on ''discovered'') (discv5 this)) +
       (if \<not> started this \<and> engine1 = Returned then 1 else 0)"
  by (cases engine1) (simp_all add: start_def start_call_def)

text \<open>
  Claim C7. \<open>stop()\<close> on a stopped controller returns and leaves the controller as it
  was: the run-flag is unchanged, the engine's \<open>stop()\<close> is not invoked and no handler
  is unsubscribed. The controller that the constructor returns is stopped, so this is
  what \<open>stop()\<close> before any \<open>start()\<close> does.
\<close>

theorem stop_when_stopped_noop:
  "(\<not> started this \<longrightarrow> stop engine this = (Returned, this)) \<and>
   (constructor ext options = Inr (this, floating) \<longrightarrow> stop engine this = (Returned, this))"
proof -
  have a: "\<not> started this \<Longrightarrow> stop engine this = (Returned, this)"
    by (simp add: stop_def stop_call_def)
  have "constructor ext options = Inr (this, floating) \<Longrightarrow> \<not> started this"
    using constructor_Inr [of ext options this floating] by auto
  with a show ?thesis by blast
qed

theorem stop_when_stopped_noop_witness:
  "\<not> started this0 \<and> stop Returned this0 = (Returned, this0) \<and>
   (\<exists>this floating. constructor ext0 options0 = Inr (this, floating) \<and>
      stop (Threw (Error ''engine'')) this = (Returned, this))"
proof -
  have h: "\<not> started this0" by (simp add: this0_def)
  note c0 = constructor_options0
  from stop_when_stopped_noop [of this0 Returned ext0 options0 "[]"] h
  have a: "stop Returned this0 = (Returned, this0)" by blast
  from stop_when_stopped_noop [of _ "Threw (Error ''engine'')" ext0 options0, THEN conjunct2] c0
  have "stop (Threw (Error ''engine''))
          \<lparr>discv5 = [Discv5_create (EnrText ''enr:local'') ''local'' ''/ip4/0.0.0.0/udp/9000'',
               Discv5_addEnr enr_both, Discv5_addEnr enr_udp_only],
            started = False, lookupInterval = Num 5000, emitted = [], timers = []\<rparr> =
        (Returned,
          \<lparr>discv5 = [Discv5_create (EnrText ''enr:local'') ''local'' ''/ip4/0.0.0.0/udp/9000'',
               Discv5_addEnr enr_both, Discv5_addEnr enr_udp_only],
            started = False, lookupInterval = Num 5000, emitted = [], timers = []\<rparr>)"
    by blast
  with h a c0 show ?thesis by blast
qed

text \<open>
  Claim C9. When the engine's \<open>start()\<close> rejects, \<open>start()\<close> of a stopped controller
  rejects with the same error, having set the run-flag to Running and called the
  engine's \<open>start()\<close>, and nothing is rolled back: a following \<open>start()\<close> returns as a
  no-op, and a following \<open>stop()\<close> clears the flag, unsubscribes the handler and
  invokes the engine's \<open>stop()\<close>.
\<close>

theorem start_failure_not_rolled_back:
  assumes "\<not> started this"
  shows "start (Threw e) this =
           (Threw e, this\<lparr>started := True, discv5 := discv5 this @ [Discv5_start]\<rparr>) \<and>
         started (snd (start (Threw e) this)) \<and>
         start engine2 (snd (start (Threw e) this)) = (Returned, snd (start (Threw e) this)) \<and>
         stop engine3 (snd (start (Threw e) this)) =
           (engine3,
            this\<lparr>started := False,
                 discv5 := discv5 this @ [Discv5_start, Discv5_off ''discovered'', Discv5_stop]\<rparr>)"
  using assms by (simp add: start_def start_call_def stop_def stop_call_def)

theorem start_failure_not_rolled_back_witness:
  "\<not> started this0 \<and>
   start (Threw (Error ''bind failed'')) this0 =
     (Threw (Error ''bind failed''), this0\<lparr>started := True, discv5 := [Discv5_start]\<rparr>) \<and>
   start Returned (this0\<lparr>started := True, discv5 := [Discv5_start]\<rparr>) =
     (Returned, this0\<lparr>started := True, discv5 := [Discv5_start]\<rparr>) \<and>
   stop Returned (this0\<lparr>started := True, discv5 := [Discv5_start]\<rparr>) =
     (Returned, this0\<lparr>started := False,
        discv5 := [Discv5_start, Discv5_off ''discovered'', Discv5_stop]\<rparr>)"
proof -
  have h: "\<not> started this0" and d: "discv5 this0 = []"
    by (simp_all add: this0_def)
  note t = start_failure_not_rolled_back [OF h, of "Error ''bind failed''" Returned Returned]
  from t [THEN conjunct1] d
  have a: "start (Threw (Error ''bind failed'')) this0 =
      (Threw (Error ''bind failed''), this0\<lparr>started := True, discv5 := [Discv5_start]\<rparr>)"
    by simp
  note b = t [THEN conjunct2, THEN conjunct2, THEN conjunct1]
  from t [THEN conjunct2, THEN conjunct2, THEN conjunct2] d
  have c: "stop Returned (snd (start (Threw (Error ''bind failed'')) this0)) =
      (Returned, this0\<lparr>started := False,
         discv5 := [Discv5_start, Discv5_off ''discovered'', Discv5_stop]\<rparr>)"
    by simp
  from h a b [unfolded a] c [unfolded a] show ?thesis by simp
qed

subsection \<open>The constructor\<close>

text \<open>
  Claim C8, as amended. When the bind address parses and the engine is created, the
  constructor goes through the boot records in order and, for each, first runs
  \<open>addEnr\<close> and then calls \<open>handleEnr\<close> (not awaited), until \<open>addEnr\<close> throws.
  For a seed set that begins with boot records that decode and have a \<open>udp\<close> or
  \<open>udp6\<close> port: each of these has been forwarded to the engine and has had
  \<open>handleEnr\<close> called on it, in order; if there is no further record the constructor
  returns that controller; if the next record is one \<open>addEnr\<close> rejects, the
  constructor throws \<open>addEnr\<close>'s error, \<open>handleEnr\<close> has not been called on that
  record, and no later record has been ingested either way. All of it is done on the
  stopped controller: the run-flag is false, the engine has not been started, nothing
  is emitted yet and the polling loop is not scheduled.
\<close>

theorem constructor_ingests_until_rejected:
  assumes "Multiaddr_new ext (opt_bindAddr options) = Inr ma"
    and "Discv5_create_throws ext (opt_enr options) (opt_peerId options) ma = None"
    and "opt_bootEnrs options = pre @ rest"
    and "map (decodedEnr ext) pre = map Inr ds"
    and "list_all (\<lambda>d. udp d \<noteq> None \<or> udp6 d \<noteq> None) ds"
    and "this =
           \<lparr>discv5 = Discv5_create (opt_enr options) (opt_peerId options) ma # map Discv5_addEnr ds,
            started = False,
            lookupInterval =
              (case opt_lookupInterval options of
                 None \<Rightarrow> defaultLookupInterval
               | Some n \<Rightarrow> if truthy n then n else defaultLookupInterval),
            emitted = [], timers = []\<rparr>"
  shows "(rest = [] \<longrightarrow>
            constructor_body ext options = Inr (Returned, this, map (handleEnr_call ext) pre) \<and>
            constructor ext options = Inr (this, map (handleEnr_call ext) pre)) \<and>
         (\<forall>b later e. rest = b # later \<and> fst (addEnr ext b this) = Threw e \<longrightarrow>
            constructor_body ext options = Inr (Threw e, this, map (handleEnr_call ext) pre) \<and>
            constructor ext options = Inl e)"
proof -
  let ?init = "\<lparr>discv5 = [Discv5_create (opt_enr options) (opt_peerId options) ma],
                started = False,
                lookupInterval =
                  (case opt_lookupInterval options of
                     None \<Rightarrow> defaultLookupInterval
                   | Some n \<Rightarrow> if truthy n then n else defaultLookupInterval),
                emitted = [], timers = []\<rparr>"
  have body: "constructor_body ext options = Inr (bootEnrs_forEach ext (pre @ rest) (?init, []))"
    using assms(1-3) by (simp add: constructor_body_def)
  have st: "?init\<lparr>discv5 := discv5 ?init @ map Discv5_addEnr ds\<rparr> = this"
    using assms(6) by simp
  have run: "bootEnrs_forEach ext (pre @ rest) (?init, []) =
             bootEnrs_forEach ext rest (this, map (handleEnr_call ext) pre)"
    using bootEnrs_forEach_accepted [OF assms(4,5), of rest ?init "[]"] unfolding st by simp
  have a: "rest = [] \<Longrightarrow>
      constructor_body ext options = Inr (Returned, this, map (handleEnr_call ext) pre) \<and>
      constructor ext options = Inr (this, map (handleEnr_call ext) pre)"
    using body run by (simp add: constructor_def)
  have b: "rest = b # later \<Longrightarrow> fst (addEnr ext b this) = Threw e \<Longrightarrow>
      constructor_body ext options = Inr (Threw e, this, map (handleEnr_call ext) pre) \<and>
      constructor ext options = Inl e" for b later e
    using body run bootEnrs_forEach_rejected [of ext b this e later "map (handleEnr_call ext) pre"]
    by (simp add: constructor_def)
  from a b show ?thesis by blast
qed

theorem constructor_ingests_until_rejected_witness:
  "opt_bootEnrs options0 = [EnrText ''enr:both'', EnrObject enr_udp_only] @ [] \<and>
   map (decodedEnr ext0) [EnrText ''enr:both'', EnrObject enr_udp_only] = map Inr [enr_both, enr_udp_only] \<and>
   list_all (\<lambda>d. udp d \<noteq> None \<or> udp6 d \<noteq> None) [enr_both, enr_udp_only] \<and>
   constructor ext0 options0 =
     Inr (\<lparr>discv5 = [Discv5_create (EnrText ''enr:local'') ''local'' ''/ip4/0.0.0.0/udp/9000'',
                      Discv5_addEnr enr_both, Discv5_addEnr enr_udp_only],
           started = False, lookupInterval = Num 5000, emitted = [], timers = []\<rparr>,
          [handleEnr_call ext0 (EnrText ''enr:both''), handleEnr_call ext0 (EnrObject enr_udp_only)]) \<and>
   opt_bootEnrs options_rejected =
     [EnrObject enr_both] @ [EnrObject enr_tcp_only, EnrObject enr_udp_only] \<and>
   map (decodedEnr ext0) [EnrObject enr_both] = map Inr [enr_both] \<and>
   list_all (\<lambda>d. udp d \<noteq> None \<or> udp6 d \<noteq> None) [enr_both] \<and>
   fst (addEnr ext0 (EnrObject enr_tcp_only)
          \<lparr>discv5 = [Discv5_create (EnrText ''enr:local'') ''local'' ''/ip4/0.0.0.0/udp/9000'',
                      Discv5_addEnr enr_both],
           started = False, lookupInterval = Num 5000, emitted = [], timers = []\<rparr>) =
     Threw (Error ''invalid enr, missing udp information'') \<and>
   constructor_body ext0 options_rejected =
     Inr (Threw (Error ''invalid enr, missing udp information''),
          \<lparr>discv5 = [Discv5_create (EnrText ''enr:local'') ''local'' ''/ip4/0.0.0.0/udp/9000'',
                      Discv5_addEnr enr_both],
           started = False, lookupInterval = Num 5000, emitted = [], timers = []\<rparr>,
          [handleEnr_call ext0 (EnrObject enr_both)]) \<and>
   constructor ext0 options_rejected = Inl (Error ''invalid enr, missing udp information'')"
proof -
  let ?ma = "''/ip4/0.0.0.0/udp/9000''"
  let ?this0 = "\<lparr>discv5 = [Discv5_create (EnrText ''enr:local'') ''local'' ?ma,
                            Discv5_addEnr enr_both, Discv5_addEnr enr_udp_only],
                 started = False, lookupInterval = Num 5000, emitted = [], timers = []\<rparr>"
  let ?this1 = "\<lparr>discv5 = [Discv5_create (EnrText ''enr:local'') ''local'' ?ma,
                            Discv5_addEnr enr_both],
                 started = False, lookupInterval = Num 5000, emitted = [], timers = []\<rparr>"
  have h0: "Multiaddr_new ext0 (opt_bindAddr options0) = Inr ?ma"
    "Discv5_create_throws ext0 (opt_enr options0) (opt_peerId options0) ?ma = None"
    "opt_bootEnrs options0 = [EnrText ''enr:both'', EnrObject enr_udp_only] @ []"
    "map (decodedEnr ext0) [EnrText ''enr:both'', EnrObject enr_udp_only] = map Inr [enr_both, enr_udp_only]"
    "list_all (\<lambda>d. udp d \<noteq> None \<or> udp6 d \<noteq> None) [enr_both, enr_udp_only]"
    "?this0 =
       \<lparr>discv5 = Discv5_create (opt_enr options0) (opt_peerId options0) ?ma #
                   map Discv5_addEnr [enr_both, enr_udp_only],
        started = False,
        lookupInterval =
          (case opt_lookupInterval options0 of
             None \<Rightarrow> defaultLookupInterval
           | Some n \<Rightarrow> if truthy n then n else defaultLookupInterval),
        emitted = [], timers = []\<rparr>"
    by (simp_all add: ext0_def options0_def enr_both_def enr_udp_only_def defaultLookupInterval_def)
  have h1: "Multiaddr_new ext0 (opt_bindAddr options_rejected) = Inr ?ma"
    "Discv5_create_throws ext0 (opt_enr options_rejected) (opt_peerId options_rejected) ?ma = None"
    "opt_bootEnrs options_rejected =
       [EnrObject enr_both] @ [EnrObject enr_tcp_only, EnrObject enr_udp_only]"
    "map (decodedEnr ext0) [EnrObject enr_both] = map Inr [enr_both]"
    "list_all (\<lambda>d. udp d \<noteq> None \<or> udp6 d \<noteq> None) [enr_both]"
    "?this1 =
       \<lparr>discv5 = Discv5_create (opt_enr options_rejected) (opt_peerId options_rejected) ?ma #
                   map Discv5_addEnr [enr_both],
        started = False,
        lookupInterval =
          (case opt_lookupInterval options_rejected of
             None \<Rightarrow> defaultLookupInterval
           | Some n \<Rightarrow> if truthy n then n else defaultLookupInterval),
        emitted = [], timers = []\<rparr>"
    by (simp_all add: ext0_def options_rejected_def enr_both_def defaultLookupInterval_def)
  have r: "fst (addEnr ext0 (EnrObject enr_tcp_only) ?this1) =
             Threw (Error ''invalid enr, missing udp information'')"
    by (simp add: addEnr_def enr_tcp_only_def)
  note t0 = constructor_ingests_until_rejected [OF h0, THEN conjunct1, rule_format, OF refl]
  note t1 = constructor_ingests_until_rejected [OF h1, THEN conjunct2, rule_format, OF conjI, OF refl r]
  from t0 t1 h0(3-5) h1(3-5) r show ?thesis by simp
qed

text \<open>
  Claim C8 as stated fails: of the three boot records of \<open>options_rejected\<close> the
  second has no \<open>udp\<close> or \<open>udp6\<close> port. The constructor throws at it: \<open>handleEnr\<close>
  has been called on the first record only, and the third record, which \<open>addEnr\<close>
  would accept, is neither forwarded to the engine nor handed to \<open>handleEnr\<close>.
\<close>

theorem constructor_aborts_counterexample:
  "opt_bootEnrs options_rejected = [EnrObject enr_both, EnrObject enr_tcp_only, EnrObject enr_udp_only] \<and>
   constructor ext0 options_rejected = Inl (Error ''invalid enr, missing udp information'') \<and>
   constructor_body ext0 options_rejected =
     Inr (Threw (Error ''invalid enr, missing udp information''),
          \<lparr>discv5 = [Discv5_create (EnrText ''enr:local'') ''local'' ''/ip4/0.0.0.0/udp/9000'',
                      Discv5_addEnr enr_both],
           started = False, lookupInterval = Num 5000, emitted = [], timers = []\<rparr>,
          [handleEnr_call ext0 (EnrObject enr_both)]) \<and>
   fst (addEnr ext0 (EnrObject enr_udp_only) this0) = Returned"
  by (simp add: constructor_def constructor_body_def options_rejected_def ext0_def addEnr_def
      enr_both_def enr_tcp_only_def enr_udp_only_def defaultLookupInterval_def this0_def)

subsection \<open>The lookup interval\<close>








end
